theory Spec2Isabelle
  imports Main "HOL-Library.Word"
begin

section \<open>Qt strings: place markers and \<open>QString::arg\<close>\<close>

text \<open>
  \<open>ctkXnatFile.cpp\<close> builds every string with \<open>QString::arg\<close>. A \<open>QString\<close> is
  modelled as a \<open>string\<close>. A format string is read as a sequence of pieces: an
  ordinary character, or a place marker \<open>%n\<close> (a percent sign and one or two decimal
  digits) kept with its number and its own text. The locale form \<open>%Ln\<close> is not read as
  a marker here; no format string of the file uses it.
\<close>

datatype piece = Lit char | Marker nat string

definition digitValue :: "char \<Rightarrow> nat option" where
  "digitValue c =
     (let n = (of_char c :: nat)
      in if 48 \<le> n \<and> n \<le> 57 then Some (n - 48) else None)"

fun pieces :: "string \<Rightarrow> piece list" where
  "pieces [] = []"
| "pieces (c # cs) =
     (if c = CHR ''%'' then
        (case cs of
           [] \<Rightarrow> [Lit c]
         | d1 # rest \<Rightarrow>
             (case digitValue d1 of
                None \<Rightarrow> Lit c # pieces cs
              | Some n1 \<Rightarrow>
                  (case rest of
                     [] \<Rightarrow> [Marker n1 [c, d1]]
                   | d2 # rest2 \<Rightarrow>
                       (case digitValue d2 of
                          None \<Rightarrow> Marker n1 [c, d1] # pieces rest
                        | Some n2 \<Rightarrow>
                            Marker (10 * n1 + n2) [c, d1, d2] # pieces rest2))))
      else Lit c # pieces cs)"

fun markerNumbers :: "piece list \<Rightarrow> nat list" where
  "markerNumbers [] = []"
| "markerNumbers (Lit c # ps) = markerNumbers ps"
| "markerNumbers (Marker n t # ps) = n # markerNumbers ps"

text \<open>A marker with an argument assigned is replaced by it; any other piece keeps its text.\<close>

fun render :: "(nat \<rightharpoonup> string) \<Rightarrow> piece \<Rightarrow> string" where
  "render \<sigma> (Lit c) = [c]"
| "render \<sigma> (Marker n t) = (case \<sigma> n of Some a \<Rightarrow> a | None \<Rightarrow> t)"

text \<open>
  \<open>QString::arg(const QString &a1, const QString &a2)\<close>: the distinct marker numbers of
  the format, in ascending order, receive the arguments in order, and all markers are
  replaced in one pass, so that text arriving with an argument is never read as a marker.
\<close>

definition multiArg :: "string \<Rightarrow> string list \<Rightarrow> string" where
  "multiArg fmt args =
     (let ps = pieces fmt;
          numbersUsed = sort (remdups (markerNumbers ps))
      in concat (map (render (map_of (zip numbersUsed args))) ps))"

definition arg_QString_QString :: "string \<Rightarrow> string \<Rightarrow> string \<Rightarrow> string" where
  "arg_QString_QString fmt a1 a2 = multiArg fmt [a1, a2]"

text \<open>
  \<open>QString::arg(const QString &a, int fieldWidth = 0, QChar fillChar = ' ')\<close>: only the
  lowest-numbered marker is replaced, by \<open>a\<close> padded with spaces to \<open>fieldWidth\<close>
  characters (on the left for a positive width, on the right for a negative one); a format
  without marker is returned as it is.
\<close>

definition padded :: "string \<Rightarrow> int \<Rightarrow> string" where
  "padded a fieldWidth =
     (let fill = replicate (nat \<bar>fieldWidth\<bar> - length a) CHR '' ''
      in if fieldWidth < 0 then a @ fill else fill @ a)"

definition arg_QString_int :: "string \<Rightarrow> string \<Rightarrow> int \<Rightarrow> string" where
  "arg_QString_int fmt a fieldWidth =
     (let ps = pieces fmt
      in case sort (remdups (markerNumbers ps)) of
           [] \<Rightarrow> fmt
         | lowest # _ \<Rightarrow> concat (map (render [lowest \<mapsto> padded a fieldWidth]) ps))"

definition arg_QString :: "string \<Rightarrow> string \<Rightarrow> string" where
  "arg_QString fmt a = arg_QString_int fmt a 0"


section \<open>The file resource\<close>

definition FILE_NAME :: string where "FILE_NAME = ''Name''"
definition FILE_TAGS :: string where "FILE_TAGS = ''file_tags''"
definition FILE_FORMAT :: string where "FILE_FORMAT = ''file_format''"
definition FILE_CONTENT :: string where "FILE_CONTENT = ''file_content''"

text \<open>
  Modelled from the spec: the base class \<open>ctkXnatObject\<close> (its property store,
  \<open>schemaType()\<close>, \<open>exists()\<close>, \<open>parent()\<close>) is declared outside
  \<open>ctkXnatFile.cpp\<close>. The spec gives the property store as an ordered mapping of string
  keys to string values, a flag telling whether the resource already exists remotely, a
  resource type discriminator and the URI of the parent resource. \<open>properties\<close> lists
  the entries of the \<open>QMap<QString, QString>\<close> in the order a \<open>QMapIterator\<close> visits
  them; \<open>localFilePath\<close> is the field of \<open>ctkXnatFilePrivate\<close>.
\<close>

record ctkXnatFile =
  properties :: "(string \<times> string) list"
  localFilePath :: string
  schemaType :: string
  exists :: bool
  parentResourceUri :: string

text \<open>
  Modelled from the spec: \<open>ctkXnatObject::property\<close>, the lookup of the property store;
  a key that is not stored reads as the empty string.
\<close>

definition property :: "ctkXnatFile \<Rightarrow> string \<Rightarrow> string" where
  "property f key = (case map_of (properties f) key of Some v \<Rightarrow> v | None \<Rightarrow> [])"

definition name :: "ctkXnatFile \<Rightarrow> string" where
  "name f = property f FILE_NAME"

definition fileFormat :: "ctkXnatFile \<Rightarrow> string" where
  "fileFormat f = property f FILE_FORMAT"

definition fileContent :: "ctkXnatFile \<Rightarrow> string" where
  "fileContent f = property f FILE_CONTENT"

definition fileTags :: "ctkXnatFile \<Rightarrow> string" where
  "fileTags f = property f FILE_TAGS"

definition resourceUri :: "ctkXnatFile \<Rightarrow> string" where
  "resourceUri f = arg_QString_QString ''%1/files/%2'' (parentResourceUri f) (name f)"


section \<open>The upload query of \<open>saveImpl\<close>\<close>

text \<open>
  The \<open>while (itProperties.hasNext())\<close> loop: the three file specific keys are skipped,
  every other entry is appended as \<open>&key=value\<close>.
\<close>

fun appendProperties :: "string \<Rightarrow> (string \<times> string) list \<Rightarrow> string" where
  "appendProperties query [] = query"
| "appendProperties query ((key, val) # rest) =
     (if key = FILE_TAGS \<or> key = FILE_FORMAT \<or> key = FILE_CONTENT
      then appendProperties query rest
      else appendProperties (query @ arg_QString_QString ''&%1=%2'' key val) rest)"

text \<open>
  The statements that build \<open>query\<close>, in the order of the source. In
  \<open>arg("overwrite", true)\<close> the second argument is a \<open>bool\<close>: no conversion takes a
  \<open>bool\<close> to a \<open>QString\<close>, so the overload chosen is
  \<open>arg(const QString &a, int fieldWidth, QChar fillChar)\<close> with the field width
  \<open>int(true)\<close>. Every other call passes two strings.
\<close>

definition uploadQuery :: "ctkXnatFile \<Rightarrow> string" where
  "uploadQuery f =
     (let query = resourceUri f;
          query = query @ arg_QString_QString ''?%1=%2'' ''xsi:type'' (schemaType f);
          query = appendProperties query (properties f);
          query = query @ arg_QString_QString ''&%1=%2'' ''format'' (fileFormat f);
          query = query @ arg_QString_QString ''&%1=%2'' ''content'' (fileContent f);
          query = query @ arg_QString_QString ''&%1=%2'' ''tags'' (fileTags f);
          query = (if exists f
                   then query @ arg_QString_int ''&%1=%2'' ''overwrite'' (of_bool True)
                   else query);
          query = query @ arg_QString_QString ''&%1=%2'' ''inbody'' ''true''
      in query)"


section \<open>What \<open>saveImpl\<close> meets outside the resource\<close>

text \<open>
  The local file system as \<open>QFile\<close> sees it during one call: a path names a file or
  nothing; a file can or cannot be opened for reading, and \<open>readAll\<close> yields its bytes.
\<close>

type_synonym QByteArray = "8 word list"

record localFile =
  openable :: bool
  bytes :: QByteArray

text \<open>
  Modelled from the spec: \<open>ctkXnatSession\<close> is declared outside \<open>ctkXnatFile.cpp\<close>;
  \<open>httpSync\<close> answers with the ordered list of catalog records, each a mapping from
  keys to values. \<open>catalog\<close> is that answer. The value type \<open>QVariant\<close> with its
  \<open>toString\<close>, and the digest \<open>QCryptographicHash(Md5)\<close> followed by \<open>toHex\<close>
  (\<open>md5Hex\<close>), belong to Qt and are parameters of the model.
\<close>

record 'v environment =
  localFiles :: "string \<rightharpoonup> localFile"
  catalog :: "(string \<rightharpoonup> 'v) list"
  toString :: "'v \<Rightarrow> string"
  md5Hex :: "QByteArray \<Rightarrow> string"

text \<open>
  Every call that leaves the resource is recorded, in order: the three transport calls of
  the session, the deletion \<open>erase()\<close>, and the warning written with \<open>qWarning\<close>.
  These calls are taken to return normally: \<open>saveImpl\<close> catches nothing, so an
  exception raised inside one of them would end the call at that point, and the file
  system is the same at \<open>file.exists()\<close> and at \<open>file.open()\<close>.
\<close>

datatype event =
    SessionUpload string string
  | SessionHttpGet string
  | SessionHttpSync
  | EraseCall string
  | QWarning string

record state =
  self :: ctkXnatFile
  events :: "event list"

definition session_upload :: "string \<Rightarrow> string \<Rightarrow> state \<Rightarrow> state" where
  "session_upload filename query s = s\<lparr>events := events s @ [SessionUpload filename query]\<rparr>"

definition session_httpGet :: "string \<Rightarrow> state \<Rightarrow> state" where
  "session_httpGet uri s = s\<lparr>events := events s @ [SessionHttpGet uri]\<rparr>"

definition session_httpSync :: "'v environment \<Rightarrow> state \<Rightarrow> (string \<rightharpoonup> 'v) list \<times> state" where
  "session_httpSync env s = (catalog env, s\<lparr>events := events s @ [SessionHttpSync]\<rparr>)"

text \<open>
  Modelled from the spec: \<open>ctkXnatObject::erase\<close> is declared outside
  \<open>ctkXnatFile.cpp\<close>; the spec gives it as the deletion of the remote file resource,
  used for rollback. It is recorded with the URI of the resource it deletes.
\<close>

definition erase :: "state \<Rightarrow> state" where
  "erase s = s\<lparr>events := events s @ [EraseCall (resourceUri (self s))]\<rparr>"

definition qWarning :: "string \<Rightarrow> state \<Rightarrow> state" where
  "qWarning msg s = s\<lparr>events := events s @ [QWarning msg]\<rparr>"

text \<open>
  The two ways \<open>saveImpl\<close> can stop early: the exception it throws, with its message, and
  the dereference of a list iterator that points at no record, which the source never
  guards against and which the model keeps visible.
\<close>

datatype abort = ctkXnatException string | InvalidIteratorDereference


section \<open>The reverse scan of the catalog\<close>

text \<open>
  The iterator \<open>it\<close> is the position it points at: \<open>constBegin()\<close> is \<open>0\<close>,
  \<open>constEnd()\<close> is the length of the list, so the loop runs while \<open>it\<close> differs from
  \<open>- 1\<close>. \<open>(*it).find(name)\<close> is the lookup in the record at that position.
\<close>

function md5ChecksumRemote_loop ::
  "('v \<Rightarrow> string) \<Rightarrow> (string \<rightharpoonup> 'v) list \<Rightarrow> string \<Rightarrow> int \<Rightarrow> string \<Rightarrow> abort + string"
where
  "md5ChecksumRemote_loop toS result nm it md5ChecksumRemote =
     (if it = - 1 then Inr md5ChecksumRemote
      else if it < 0 \<or> int (length result) \<le> it then Inl InvalidIteratorDereference
      else (case (result ! nat it) nm of
              Some v \<Rightarrow> Inr (toS v)
            | None \<Rightarrow> md5ChecksumRemote_loop toS result nm (it - 1) md5ChecksumRemote))"
  by pat_completeness auto
termination
  by (relation "measure (\<lambda>(toS, result, nm, it, md5ChecksumRemote). nat (it + 1))") auto

declare md5ChecksumRemote_loop.simps [simp del]

text \<open>
  The scan as \<open>saveImpl\<close> starts it: at \<open>result.constEnd() - 1\<close>, with the checksum
  initialised to \<open>"0"\<close>.
\<close>

definition scanCatalog :: "'v environment \<Rightarrow> ctkXnatFile \<Rightarrow> abort + string" where
  "scanCatalog env f =
     md5ChecksumRemote_loop (toString env) (catalog env) (name f)
       (int (length (catalog env)) - 1) ''0''"


section \<open>\<open>ctkXnatFile::saveImpl\<close>\<close>

definition saveImpl :: "'v environment \<Rightarrow> state \<Rightarrow> (abort + unit) \<times> state" where
  "saveImpl env s =
     (let filename = localFilePath (self s)
      in case localFiles env filename of
           None \<Rightarrow>
             (Inl (ctkXnatException
                (''Error uploading file! '' @
                 arg_QString ''File \"%1\" does not exist!'' filename)), s)
         | Some file \<Rightarrow>
             (let query = uploadQuery (self s);
                  s = session_upload filename query s;
                  md5Query = parentResourceUri (self s);
                  s = session_httpGet md5Query s;
                  (result, s) = session_httpSync env s
              in case md5ChecksumRemote_loop (toString env) result (name (self s))
                        (int (length result) - 1) ''0'' of
                   Inl a \<Rightarrow> (Inl a, s)
                 | Inr md5ChecksumRemote \<Rightarrow>
                     (if openable file \<and> md5ChecksumRemote \<noteq> ''0'' then
                        (let md5ChecksumLocal = md5Hex env (bytes file)
                         in if md5ChecksumLocal \<noteq> md5ChecksumRemote
                            then (Inl (ctkXnatException
                                    ''Upload failed! An error occurred during file upload.''),
                                  erase s)
                            else (Inr (), s))
                      else (Inr (), qWarning ''Could not validate file upload!'' s))))"


section \<open>Example inputs\<close>

text \<open>
  A file resource \<open>scan.dcm\<close> below the resource \<open>/data/resources/7\<close>, with one
  reserved and one free metadata entry, and an environment in which the local file exists,
  its digest is \<open>digest\<close> and the catalog answer is \<open>records\<close>.
\<close>

abbreviation example_file :: ctkXnatFile where
  "example_file \<equiv>
     \<lparr>properties = [(''Name'', ''scan.dcm''), (''file_format'', ''DICOM''), (''project'', ''p1'')],
      localFilePath = ''/tmp/scan.dcm'', schemaType = ''xnat:fileData'', exists = False,
      parentResourceUri = ''/data/resources/7''\<rparr>"

abbreviation example_state :: state where
  "example_state \<equiv> \<lparr>self = example_file, events = []\<rparr>"

abbreviation example_local :: "bool \<Rightarrow> localFile" where
  "example_local readable \<equiv> \<lparr>openable = readable, bytes = [1, 2, 3]\<rparr>"

abbreviation example_env ::
  "bool \<Rightarrow> string \<Rightarrow> (string \<rightharpoonup> string) list \<Rightarrow> string environment" where
  "example_env readable digest records \<equiv>
     \<lparr>localFiles = [''/tmp/scan.dcm'' \<mapsto> example_local readable],
      catalog = records, toString = (\<lambda>v. v), md5Hex = (\<lambda>b. digest)\<rparr>"

abbreviation example_query :: string where
  "example_query \<equiv>
     ''/data/resources/7/files/scan.dcm?xsi:type=xnat:fileData&Name=scan.dcm&project=p1&format=DICOM&content=&tags=&inbody=true''"


section \<open>Facts about \<open>QString::arg\<close> on the format strings of the file\<close>

lemma arg_amp: "arg_QString_QString ''&%1=%2'' k v = ''&'' @ k @ ''='' @ v"
  by (simp add: arg_QString_QString_def multiArg_def digitValue_def)

lemma arg_question: "arg_QString_QString ''?%1=%2'' k v = ''?'' @ k @ ''='' @ v"
  by (simp add: arg_QString_QString_def multiArg_def digitValue_def)

lemma arg_files: "arg_QString_QString ''%1/files/%2'' p n = p @ ''/files/'' @ n"
  by (simp add: arg_QString_QString_def multiArg_def digitValue_def)

lemma arg_overwrite:
  "arg_QString_int ''&%1=%2'' ''overwrite'' 1 = ''&overwrite=%2''"
  by (simp add: arg_QString_int_def padded_def digitValue_def)

lemma arg_not_exist:
  "arg_QString ''File \"%1\" does not exist!'' fn = ''File \"'' @ fn @ ''\" does not exist!''"
  by (simp add: arg_QString_def arg_QString_int_def padded_def digitValue_def)

lemmas getters = name_def fileFormat_def fileContent_def fileTags_def property_def
  FILE_NAME_def FILE_TAGS_def FILE_FORMAT_def FILE_CONTENT_def


section \<open>The query in closed form\<close>

lemma appendProperties_eq:
  "appendProperties query ps =
     query @ concat (map (\<lambda>(k, v). ''&'' @ k @ ''='' @ v)
       (filter (\<lambda>(k, v). k \<notin> {FILE_TAGS, FILE_FORMAT, FILE_CONTENT}) ps))"
  by (induction query ps rule: appendProperties.induct) (simp_all add: arg_amp)

lemma uploadQuery_eq:
  "uploadQuery f =
     resourceUri f @ ''?xsi:type='' @ schemaType f
     @ concat (map (\<lambda>(k, v). ''&'' @ k @ ''='' @ v)
         (filter (\<lambda>(k, v). k \<notin> {FILE_TAGS, FILE_FORMAT, FILE_CONTENT}) (properties f)))
     @ ''&format='' @ fileFormat f
     @ ''&content='' @ fileContent f
     @ ''&tags='' @ fileTags f
     @ (if exists f then ''&overwrite=%2'' else [])
     @ ''&inbody=true''"
  by (simp add: uploadQuery_def appendProperties_eq arg_amp arg_question arg_overwrite)

lemma example_resourceUri: "resourceUri example_file = ''/data/resources/7/files/scan.dcm''"
  by (simp add: resourceUri_def arg_files getters)

lemma example_uploadQuery: "uploadQuery example_file = example_query"
  by (simp add: uploadQuery_eq example_resourceUri getters)


section \<open>The overwrite parameter\<close>

text \<open>
  C1: the query contains the parameter \<open>overwrite=true\<close> exactly when the resource is
  flagged as existing remotely. For a resource without the flag the query has no overwrite
  parameter (\<open>example_uploadQuery\<close>). For the same resource with the flag set, the
  query of the code is evaluated here: the parameter it carries is \<open>overwrite=%2\<close>, the
  second place marker left as it was, because \<open>arg("overwrite", true)\<close> reads \<open>true\<close>
  as a field width; the sibling call \<open>arg("inbody", "true")\<close> passes the string.
\<close>

theorem uploadQuery_existing_resource:
  "uploadQuery (example_file\<lparr>exists := True\<rparr>) =
     ''/data/resources/7/files/scan.dcm?xsi:type=xnat:fileData&Name=scan.dcm&project=p1&format=DICOM&content=&tags=&overwrite=%2&inbody=true''"
  by (simp add: uploadQuery_eq resourceUri_def arg_files getters)


section \<open>The order of the query parameters\<close>

text \<open>
  C2: after the resource URI the query is \<open>?xsi:type=<schemaType>\<close>, then one
  \<open>&key=value\<close> for every entry of the property map other than the three reserved keys,
  in the iteration order of the map, then \<open>format\<close>, \<open>content\<close> and \<open>tags\<close> with the
  values of the reserved keys, then the overwrite parameter when the resource exists
  remotely (nothing otherwise), and last \<open>&inbody=true\<close>. The keys of a map are pairwise
  distinct, hence no entry is emitted twice. The value \<open>ov\<close> of the overwrite parameter
  is left open here; it is settled with the overwrite parameter itself.
\<close>

theorem uploadQuery_parameter_order:
  assumes "distinct (map fst (properties f))"
  shows "\<exists>ov. CHR ''&'' \<notin> set ov \<and>
     uploadQuery f =
       resourceUri f @ ''?xsi:type='' @ schemaType f
       @ concat (map (\<lambda>(k, v). ''&'' @ k @ ''='' @ v)
           (filter (\<lambda>(k, v). k \<notin> {FILE_TAGS, FILE_FORMAT, FILE_CONTENT}) (properties f)))
       @ ''&format='' @ fileFormat f
       @ ''&content='' @ fileContent f
       @ ''&tags='' @ fileTags f
       @ (if exists f then ''&overwrite='' @ ov else [])
       @ ''&inbody=true''
     \<and> distinct (filter (\<lambda>(k, v). k \<notin> {FILE_TAGS, FILE_FORMAT, FILE_CONTENT}) (properties f))"
proof -
  from assms have "distinct (properties f)"
    by (simp add: distinct_map)
  then have d:
    "distinct (filter (\<lambda>(k, v). k \<notin> {FILE_TAGS, FILE_FORMAT, FILE_CONTENT}) (properties f))"
    by (rule distinct_filter)
  have "CHR ''&'' \<notin> set ''%2''" by simp
  with d show ?thesis
    by (intro exI [where x = "''%2''"]) (simp add: uploadQuery_eq)
qed

theorem uploadQuery_parameter_order_witness:
  "distinct (map fst (properties example_file))
   \<and> (\<exists>ov. CHR ''&'' \<notin> set ov \<and>
        uploadQuery example_file =
          ''/data/resources/7/files/scan.dcm'' @ ''?xsi:type='' @ ''xnat:fileData''
          @ concat (map (\<lambda>(k, v). ''&'' @ k @ ''='' @ v)
              [(''Name'', ''scan.dcm''), (''project'', ''p1'')])
          @ ''&format='' @ ''DICOM'' @ ''&content='' @ [] @ ''&tags='' @ []
          @ (if False then ''&overwrite='' @ ov else [])
          @ ''&inbody=true'')"
proof -
  have h: "distinct (map fst (properties example_file))" by simp
  from uploadQuery_parameter_order [OF h] obtain ov where
    "uploadQuery example_file =
       resourceUri example_file @ ''?xsi:type='' @ schemaType example_file
       @ concat (map (\<lambda>(k, v). ''&'' @ k @ ''='' @ v)
           (filter (\<lambda>(k, v). k \<notin> {FILE_TAGS, FILE_FORMAT, FILE_CONTENT})
              (properties example_file)))
       @ ''&format='' @ fileFormat example_file
       @ ''&content='' @ fileContent example_file
       @ ''&tags='' @ fileTags example_file
       @ (if exists example_file then ''&overwrite='' @ ov else [])
       @ ''&inbody=true''"
    by blast
  then have "uploadQuery example_file =
          ''/data/resources/7/files/scan.dcm'' @ ''?xsi:type='' @ ''xnat:fileData''
          @ concat (map (\<lambda>(k, v). ''&'' @ k @ ''='' @ v)
              [(''Name'', ''scan.dcm''), (''project'', ''p1'')])
          @ ''&format='' @ ''DICOM'' @ ''&content='' @ [] @ ''&tags='' @ []
          @ (if False then ''&overwrite='' @ [] else [])
          @ ''&inbody=true''"
    by (simp add: example_resourceUri getters)
  moreover have "CHR ''&'' \<notin> set []" by simp
  ultimately show ?thesis using h by blast
qed


section \<open>The local file is missing\<close>

text \<open>
  C3: when \<open>localFilePath\<close> names no existing file, \<open>saveImpl\<close> throws the exception
  whose message says that the file does not exist, and the state it leaves is the state it
  found: no event is recorded, so neither an upload, nor a catalog request, nor a fetch,
  nor a deletion has been issued.
\<close>

theorem saveImpl_missing_local_file:
  assumes "localFiles env (localFilePath (self s)) = None"
  shows "saveImpl env s =
     (Inl (ctkXnatException
        (''Error uploading file! File \"'' @ localFilePath (self s) @ ''\" does not exist!'')),
      s)"
  using assms by (simp add: saveImpl_def arg_not_exist)

theorem saveImpl_missing_local_file_witness:
  "localFiles (example_env True ''abc123'' [])
      (localFilePath (self (example_state\<lparr>self := example_file\<lparr>localFilePath := ''/tmp/gone''\<rparr>\<rparr>)))
     = None
   \<and> saveImpl (example_env True ''abc123'' [])
        (example_state\<lparr>self := example_file\<lparr>localFilePath := ''/tmp/gone''\<rparr>\<rparr>) =
     (Inl (ctkXnatException ''Error uploading file! File \"/tmp/gone\" does not exist!''),
      \<lparr>self = example_file\<lparr>localFilePath := ''/tmp/gone''\<rparr>, events = []\<rparr>)"
proof -
  let ?s = "example_state\<lparr>self := example_file\<lparr>localFilePath := ''/tmp/gone''\<rparr>\<rparr>"
  have h: "localFiles (example_env True ''abc123'' []) (localFilePath (self ?s)) = None"
    by simp
  show ?thesis
    using h saveImpl_missing_local_file [OF h] by simp
qed


section \<open>The reverse scan\<close>

text \<open>
  Started inside the list, the loop returns the value of the first record it meets that
  holds the name, that is the one with the greatest position.
\<close>

lemma loop_last_match:
  assumes "int i \<le> it" "it < int (length result)"
    and "(result ! i) nm = Some v"
    and "\<forall>j. i < j \<and> int j \<le> it \<longrightarrow> (result ! j) nm = None"
  shows "md5ChecksumRemote_loop toS result nm it d = Inr (toS v)"
  using assms
proof (induction toS result nm it d rule: md5ChecksumRemote_loop.induct)
  case (1 toS result nm it d)
  show ?case
  proof (cases "it = int i")
    case True
    with "1.prems" show ?thesis
      by (subst md5ChecksumRemote_loop.simps) simp
  next
    case False
    with "1.prems" have gt: "i < nat it" "int (nat it) \<le> it" "0 \<le> it" by auto
    with "1.prems" have none: "(result ! nat it) nm = None" by blast
    have "md5ChecksumRemote_loop toS result nm (it - 1) d = Inr (toS v)"
    proof (rule "1.IH")
      show "it \<noteq> - 1" using gt by simp
      show "\<not> (it < 0 \<or> int (length result) \<le> it)" using gt "1.prems" by linarith
      show "(result ! nat it) nm = None" by (rule none)
      show "int i \<le> it - 1" using gt by linarith
      show "it - 1 < int (length result)" using "1.prems" by simp
      show "(result ! i) nm = Some v" by (rule "1.prems")
      show "\<forall>j. i < j \<and> int j \<le> it - 1 \<longrightarrow> (result ! j) nm = None"
        using "1.prems" by simp
    qed
    with none gt "1.prems" show ?thesis
      by (subst md5ChecksumRemote_loop.simps) simp
  qed
qed

text \<open>When no record up to the start position holds the name, the initial value stays.\<close>

lemma loop_no_match:
  assumes "- 1 \<le> it" "it < int (length result)"
    and "\<forall>j. int j \<le> it \<longrightarrow> (result ! j) nm = None"
  shows "md5ChecksumRemote_loop toS result nm it d = Inr d"
  using assms
proof (induction toS result nm it d rule: md5ChecksumRemote_loop.induct)
  case (1 toS result nm it d)
  show ?case
  proof (cases "it = - 1")
    case True
    then show ?thesis by (subst md5ChecksumRemote_loop.simps) simp
  next
    case False
    with "1.prems" have nn: "0 \<le> it" "int (nat it) \<le> it" by auto
    with "1.prems" have none: "(result ! nat it) nm = None" by blast
    have "md5ChecksumRemote_loop toS result nm (it - 1) d = Inr d"
    proof (rule "1.IH")
      show "it \<noteq> - 1" by (rule False)
      show "\<not> (it < 0 \<or> int (length result) \<le> it)" using nn "1.prems" by linarith
      show "(result ! nat it) nm = None" by (rule none)
      show "- 1 \<le> it - 1" using nn by linarith
      show "it - 1 < int (length result)" using "1.prems" by simp
      show "\<forall>j. int j \<le> it - 1 \<longrightarrow> (result ! j) nm = None" using "1.prems" by simp
    qed
    with none nn False "1.prems" show ?thesis
      by (subst md5ChecksumRemote_loop.simps) simp
  qed
qed

text \<open>Started at the last record or at \<open>- 1\<close>, the loop never leaves the list.\<close>

lemma loop_returns:
  assumes "- 1 \<le> it" "it < int (length result)"
  shows "\<exists>c. md5ChecksumRemote_loop toS result nm it d = Inr c"
  using assms
proof (induction toS result nm it d rule: md5ChecksumRemote_loop.induct)
  case (1 toS result nm it d)
  show ?case
  proof (cases "it = - 1")
    case True
    then show ?thesis by (subst md5ChecksumRemote_loop.simps) simp
  next
    case False
    with "1.prems" have inside: "\<not> (it < 0 \<or> int (length result) \<le> it)" by linarith
    show ?thesis
    proof (cases "(result ! nat it) nm")
      case None
      have "\<exists>c. md5ChecksumRemote_loop toS result nm (it - 1) d = Inr c"
        using False inside None
      proof (rule "1.IH")
        show "- 1 \<le> it - 1" using inside by linarith
        show "it - 1 < int (length result)" using "1.prems" by linarith
      qed
      with False inside None show ?thesis
        by (subst md5ChecksumRemote_loop.simps) simp
    next
      case (Some v)
      with False inside show ?thesis
        by (subst md5ChecksumRemote_loop.simps) simp
    qed
  qed
qed

lemma scanCatalog_returns: "\<exists>c. scanCatalog env f = Inr c"
  unfolding scanCatalog_def by (rule loop_returns) simp_all

lemma scanCatalog_last_match:
  assumes "i < length (catalog env)" "(catalog env ! i) (name f) = Some v"
    and "\<forall>j. i < j \<and> j < length (catalog env) \<longrightarrow> (catalog env ! j) (name f) = None"
  shows "scanCatalog env f = Inr (toString env v)"
  unfolding scanCatalog_def
proof (rule loop_last_match [where i = i])
  show "int i \<le> int (length (catalog env)) - 1" using assms(1) by linarith
  show "int (length (catalog env)) - 1 < int (length (catalog env))" by simp
  show "(catalog env ! i) (name f) = Some v" by (rule assms(2))
  show "\<forall>j. i < j \<and> int j \<le> int (length (catalog env)) - 1
          \<longrightarrow> (catalog env ! j) (name f) = None"
    using assms(3) by auto
qed

lemma scanCatalog_no_match:
  assumes "\<forall>r \<in> set (catalog env). r (name f) = None"
  shows "scanCatalog env f = Inr ''0''"
  unfolding scanCatalog_def
proof (rule loop_no_match)
  show "- 1 \<le> int (length (catalog env)) - 1" by simp
  show "int (length (catalog env)) - 1 < int (length (catalog env))" by simp
  show "\<forall>j. int j \<le> int (length (catalog env)) - 1 \<longrightarrow> (catalog env ! j) (name f) = None"
    using assms by auto
qed


section \<open>\<open>saveImpl\<close> once the local file exists\<close>

text \<open>
  The three transport calls are issued in order; what follows depends on whether the file
  opens, on the checksum the scan returns and on the digest of the local bytes.
\<close>

lemma saveImpl_uploaded:
  assumes "localFiles env (localFilePath (self s)) = Some file"
    and "scanCatalog env (self s) = Inr c"
  shows "saveImpl env s =
     (let s3 = s\<lparr>events := events s @
                 [SessionUpload (localFilePath (self s)) (uploadQuery (self s)),
                  SessionHttpGet (parentResourceUri (self s)), SessionHttpSync]\<rparr>
      in if openable file \<and> c \<noteq> ''0'' then
           if md5Hex env (bytes file) \<noteq> c
           then (Inl (ctkXnatException ''Upload failed! An error occurred during file upload.''),
                 s3\<lparr>events := events s3 @ [EraseCall (resourceUri (self s))]\<rparr>)
           else (Inr (), s3)
         else (Inr (),
               s3\<lparr>events := events s3 @ [QWarning ''Could not validate file upload!'']\<rparr>))"
  using assms
  by (simp add: saveImpl_def scanCatalog_def Let_def session_upload_def session_httpGet_def
      session_httpSync_def erase_def qWarning_def)


section \<open>Checksum mismatch\<close>

text \<open>
  C4: when the local file opens for reading, the checksum the scan returns is not the
  sentinel \<open>"0"\<close> and the hex digest of the local bytes differs from it, \<open>saveImpl\<close>
  records, after the three transport calls, exactly one deletion, that of the resource
  itself, and then throws the exception \<open>Upload failed!\<close> (the integrity failure).
\<close>

theorem saveImpl_checksum_mismatch:
  assumes "localFiles env (localFilePath (self s)) = Some lf"
    and "openable lf"
    and "scanCatalog env (self s) = Inr remote"
    and "remote \<noteq> ''0''"
    and "md5Hex env (bytes lf) \<noteq> remote"
  shows "saveImpl env s =
     (Inl (ctkXnatException ''Upload failed! An error occurred during file upload.''),
      s\<lparr>events := events s @
          [SessionUpload (localFilePath (self s)) (uploadQuery (self s)),
           SessionHttpGet (parentResourceUri (self s)),
           SessionHttpSync,
           EraseCall (resourceUri (self s))]\<rparr>)"
  using assms(2,4,5) by (simp add: saveImpl_uploaded [OF assms(1,3)])

theorem saveImpl_checksum_mismatch_witness:
  "localFiles (example_env True ''def456'' [[''scan.dcm'' \<mapsto> ''abc123'']])
       (localFilePath (self example_state)) = Some (example_local True)
   \<and> openable (example_local True)
   \<and> scanCatalog (example_env True ''def456'' [[''scan.dcm'' \<mapsto> ''abc123'']])
        (self example_state) = Inr ''abc123''
   \<and> ''abc123'' \<noteq> ''0''
   \<and> md5Hex (example_env True ''def456'' [[''scan.dcm'' \<mapsto> ''abc123'']])
        (bytes (example_local True)) \<noteq> ''abc123''
   \<and> saveImpl (example_env True ''def456'' [[''scan.dcm'' \<mapsto> ''abc123'']]) example_state =
     (Inl (ctkXnatException ''Upload failed! An error occurred during file upload.''),
      \<lparr>self = example_file,
       events =
         [SessionUpload ''/tmp/scan.dcm'' example_query,
          SessionHttpGet ''/data/resources/7'',
          SessionHttpSync,
          EraseCall ''/data/resources/7/files/scan.dcm'']\<rparr>)"
proof -
  let ?env = "example_env True ''def456'' [[''scan.dcm'' \<mapsto> ''abc123'']]"
  have h1: "localFiles ?env (localFilePath (self example_state)) = Some (example_local True)"
    by simp
  have h2: "openable (example_local True)" by simp
  have h3: "scanCatalog ?env (self example_state) = Inr ''abc123''"
    by (simp add: scanCatalog_def md5ChecksumRemote_loop.simps getters)
  have h4: "''abc123'' \<noteq> ''0''" by simp
  have h5: "md5Hex ?env (bytes (example_local True)) \<noteq> ''abc123''" by simp
  show ?thesis
    using h1 h2 h3 h4 h5 saveImpl_checksum_mismatch [OF h1 h2 h3 h4 h5]
    by (simp add: example_uploadQuery example_resourceUri)
qed

section \<open>Which record the scan takes\<close>

text \<open>
  C5: when several records of the catalog hold the name of the resource, the checksum is
  the value of the one closest to the end: if record \<open>i\<close> holds the name and no later
  record does, the scan from the end returns the value of record \<open>i\<close>, whatever earlier
  records hold, and that value is the one \<open>saveImpl\<close> compares with the local digest:
  the call succeeds when they are equal and throws when they differ.
\<close>

theorem scanCatalog_takes_last_match:
  assumes "i < length (catalog env)"
    and "(catalog env ! i) (name (self s)) = Some v"
    and "\<forall>j. i < j \<and> j < length (catalog env) \<longrightarrow> (catalog env ! j) (name (self s)) = None"
  shows "scanCatalog env (self s) = Inr (toString env v)
     \<and> (localFiles env (localFilePath (self s)) = Some lf \<and> openable lf
          \<and> toString env v \<noteq> ''0''
        \<longrightarrow> fst (saveImpl env s) =
              (if md5Hex env (bytes lf) = toString env v then Inr ()
               else Inl (ctkXnatException
                      ''Upload failed! An error occurred during file upload.'')))"
proof -
  have sc: "scanCatalog env (self s) = Inr (toString env v)"
    using assms by (rule scanCatalog_last_match)
  show ?thesis
  proof (intro conjI impI)
    show "scanCatalog env (self s) = Inr (toString env v)" by (rule sc)
  next
    assume a: "localFiles env (localFilePath (self s)) = Some lf \<and> openable lf
          \<and> toString env v \<noteq> ''0''"
    then have "localFiles env (localFilePath (self s)) = Some lf" by simp
    from saveImpl_uploaded [OF this sc] a
    show "fst (saveImpl env s) =
              (if md5Hex env (bytes lf) = toString env v then Inr ()
               else Inl (ctkXnatException
                      ''Upload failed! An error occurred during file upload.''))"
      by (simp add: Let_def)
  qed
qed

theorem scanCatalog_takes_last_match_witness:
  "(2::nat) < length (catalog (example_env True ''abc123''
        [[''scan.dcm'' \<mapsto> ''old111''], [''other.dcm'' \<mapsto> ''fff000''], [''scan.dcm'' \<mapsto> ''abc123''],
         [''last.dcm'' \<mapsto> ''eee999'']]))
   \<and> (catalog (example_env True ''abc123''
        [[''scan.dcm'' \<mapsto> ''old111''], [''other.dcm'' \<mapsto> ''fff000''], [''scan.dcm'' \<mapsto> ''abc123''],
         [''last.dcm'' \<mapsto> ''eee999'']]) ! 2) (name (self example_state)) = Some ''abc123''
   \<and> (catalog (example_env True ''abc123''
        [[''scan.dcm'' \<mapsto> ''old111''], [''other.dcm'' \<mapsto> ''fff000''], [''scan.dcm'' \<mapsto> ''abc123''],
         [''last.dcm'' \<mapsto> ''eee999'']]) ! 0) (name (self example_state)) = Some ''old111''
   \<and> scanCatalog (example_env True ''abc123''
        [[''scan.dcm'' \<mapsto> ''old111''], [''other.dcm'' \<mapsto> ''fff000''], [''scan.dcm'' \<mapsto> ''abc123''],
         [''last.dcm'' \<mapsto> ''eee999'']]) (self example_state) = Inr ''abc123''
   \<and> fst (saveImpl (example_env True ''abc123''
        [[''scan.dcm'' \<mapsto> ''old111''], [''other.dcm'' \<mapsto> ''fff000''], [''scan.dcm'' \<mapsto> ''abc123''],
         [''last.dcm'' \<mapsto> ''eee999'']]) example_state) = Inr ()"
proof -
  let ?env = "example_env True ''abc123''
        [[''scan.dcm'' \<mapsto> ''old111''], [''other.dcm'' \<mapsto> ''fff000''], [''scan.dcm'' \<mapsto> ''abc123''],
         [''last.dcm'' \<mapsto> ''eee999'']]"
  have h1: "(2::nat) < length (catalog ?env)" by simp
  have h2: "(catalog ?env ! 2) (name (self example_state)) = Some ''abc123''"
    by (simp add: getters)
  have h3: "\<forall>j. 2 < j \<and> j < length (catalog ?env)
              \<longrightarrow> (catalog ?env ! j) (name (self example_state)) = None"
  proof (intro allI impI)
    fix j :: nat
    assume "2 < j \<and> j < length (catalog ?env)"
    then have "j = 3" by simp
    then show "(catalog ?env ! j) (name (self example_state)) = None"
      by (simp add: getters)
  qed
  have h0: "(catalog ?env ! 0) (name (self example_state)) = Some ''old111''"
    by (simp add: getters)
  have pre: "localFiles ?env (localFilePath (self example_state)) = Some (example_local True)
      \<and> openable (example_local True) \<and> toString ?env ''abc123'' \<noteq> ''0''"
    by simp
  from scanCatalog_takes_last_match [OF h1 h2 h3, where lf = "example_local True"] pre
  have "scanCatalog ?env (self example_state) = Inr ''abc123''
      \<and> fst (saveImpl ?env example_state) = Inr ()"
    by simp
  with h1 h2 h0 show ?thesis by blast
qed

section \<open>Checksum match\<close>

text \<open>
  C6: when the last catalog record that holds the name of the resource carries a checksum
  other than \<open>"0"\<close> that equals the hex digest of the readable local file, \<open>saveImpl\<close>
  returns normally after the three transport calls; no deletion and no warning is
  recorded.
\<close>

theorem saveImpl_checksum_match:
  assumes "localFiles env (localFilePath (self s)) = Some lf"
    and "openable lf"
    and "i < length (catalog env)"
    and "(catalog env ! i) (name (self s)) = Some v"
    and "\<forall>j. i < j \<and> j < length (catalog env) \<longrightarrow> (catalog env ! j) (name (self s)) = None"
    and "toString env v = md5Hex env (bytes lf)"
    and "toString env v \<noteq> ''0''"
  shows "saveImpl env s =
     (Inr (),
      s\<lparr>events := events s @
          [SessionUpload (localFilePath (self s)) (uploadQuery (self s)),
           SessionHttpGet (parentResourceUri (self s)),
           SessionHttpSync]\<rparr>)"
proof -
  have "scanCatalog env (self s) = Inr (toString env v)"
    using assms(3,4,5) by (rule scanCatalog_last_match)
  from saveImpl_uploaded [OF assms(1) this] assms(2,6,7) show ?thesis
    by simp
qed

theorem saveImpl_checksum_match_witness:
  "localFiles (example_env True ''abc123''
        [[''other.dcm'' \<mapsto> ''fff000''], [''scan.dcm'' \<mapsto> ''abc123'']])
       (localFilePath (self example_state)) = Some (example_local True)
   \<and> openable (example_local True)
   \<and> (1::nat) < length (catalog (example_env True ''abc123''
        [[''other.dcm'' \<mapsto> ''fff000''], [''scan.dcm'' \<mapsto> ''abc123'']]))
   \<and> (catalog (example_env True ''abc123''
        [[''other.dcm'' \<mapsto> ''fff000''], [''scan.dcm'' \<mapsto> ''abc123'']]) ! 1)
        (name (self example_state)) = Some ''abc123''
   \<and> saveImpl (example_env True ''abc123''
        [[''other.dcm'' \<mapsto> ''fff000''], [''scan.dcm'' \<mapsto> ''abc123'']]) example_state =
     (Inr (),
      \<lparr>self = example_file,
       events =
         [SessionUpload ''/tmp/scan.dcm'' example_query,
          SessionHttpGet ''/data/resources/7'',
          SessionHttpSync]\<rparr>)"
proof -
  let ?env = "example_env True ''abc123''
        [[''other.dcm'' \<mapsto> ''fff000''], [''scan.dcm'' \<mapsto> ''abc123'']]"
  have h1: "localFiles ?env (localFilePath (self example_state)) = Some (example_local True)"
    by simp
  have h2: "openable (example_local True)" by simp
  have h3: "(1::nat) < length (catalog ?env)" by simp
  have h4: "(catalog ?env ! 1) (name (self example_state)) = Some ''abc123''"
    by (simp add: getters)
  have h5: "\<forall>j. 1 < j \<and> j < length (catalog ?env)
              \<longrightarrow> (catalog ?env ! j) (name (self example_state)) = None"
    by simp
  have h6: "toString ?env ''abc123'' = md5Hex ?env (bytes (example_local True))" by simp
  have h7: "toString ?env ''abc123'' \<noteq> ''0''" by simp
  show ?thesis
    using h1 h2 h3 h4 saveImpl_checksum_match [OF h1 h2 h3 h4 h5 h6 h7]
    by (simp add: example_uploadQuery)
qed

section \<open>Verification skipped\<close>

text \<open>
  C7: when the local file, which existed at the start of the call, cannot be opened for
  reading, or the checksum returned by the scan is the sentinel \<open>"0"\<close> (as it is when no
  catalog record holds the name of the resource), \<open>saveImpl\<close> returns normally, the
  warning \<open>Could not validate file upload!\<close> is written and no deletion is recorded.
\<close>

theorem saveImpl_verification_skipped:
  assumes "localFiles env (localFilePath (self s)) = Some lf"
    and "\<not> openable lf
         \<or> scanCatalog env (self s) = Inr ''0''
         \<or> (\<forall>r \<in> set (catalog env). r (name (self s)) = None)"
  shows "saveImpl env s =
     (Inr (),
      s\<lparr>events := events s @
          [SessionUpload (localFilePath (self s)) (uploadQuery (self s)),
           SessionHttpGet (parentResourceUri (self s)),
           SessionHttpSync,
           QWarning ''Could not validate file upload!'']\<rparr>)"
proof -
  obtain c where c: "scanCatalog env (self s) = Inr c"
    using scanCatalog_returns by blast
  from assms(2) have "\<not> openable lf \<or> c = ''0''"
    using c scanCatalog_no_match [of env "self s"] by auto
  with saveImpl_uploaded [OF assms(1) c] show ?thesis
    by auto
qed

theorem saveImpl_verification_skipped_witness:
  "localFiles (example_env False ''def456'' [[''scan.dcm'' \<mapsto> ''abc123'']])
       (localFilePath (self example_state)) = Some (example_local False)
   \<and> \<not> openable (example_local False)
   \<and> saveImpl (example_env False ''def456'' [[''scan.dcm'' \<mapsto> ''abc123'']]) example_state =
     (Inr (),
      \<lparr>self = example_file,
       events =
         [SessionUpload ''/tmp/scan.dcm'' example_query,
          SessionHttpGet ''/data/resources/7'',
          SessionHttpSync,
          QWarning ''Could not validate file upload!'']\<rparr>)"
proof -
  let ?env = "example_env False ''def456'' [[''scan.dcm'' \<mapsto> ''abc123'']]"
  have h1: "localFiles ?env (localFilePath (self example_state)) = Some (example_local False)"
    by simp
  have h2: "\<not> openable (example_local False)" by simp
  then have h3: "\<not> openable (example_local False)
         \<or> scanCatalog ?env (self example_state) = Inr ''0''
         \<or> (\<forall>r \<in> set (catalog ?env). r (name (self example_state)) = None)"
    by (rule disjI1)
  show ?thesis
    using h1 h2 saveImpl_verification_skipped [OF h1 h3]
    by (simp add: example_uploadQuery)
qed

section \<open>The empty catalog\<close>

text \<open>
  C8: on the empty catalog list the scan starts at position \<open>- 1\<close>, which is where it
  stops: it returns at once with the checksum still \<open>"0"\<close>, without dereferencing the
  iterator, and \<open>saveImpl\<close> returns normally with the warning and without deletion.
\<close>

theorem saveImpl_empty_catalog:
  assumes "catalog env = []"
    and "localFiles env (localFilePath (self s)) = Some lf"
  shows "scanCatalog env (self s) = Inr ''0''
     \<and> saveImpl env s =
       (Inr (),
        s\<lparr>events := events s @
            [SessionUpload (localFilePath (self s)) (uploadQuery (self s)),
             SessionHttpGet (parentResourceUri (self s)),
             SessionHttpSync,
             QWarning ''Could not validate file upload!'']\<rparr>)"
proof -
  have sc: "scanCatalog env (self s) = Inr ''0''"
    using assms(1) by (simp add: scanCatalog_def md5ChecksumRemote_loop.simps)
  from saveImpl_uploaded [OF assms(2) sc] sc show ?thesis
    by simp
qed

theorem saveImpl_empty_catalog_witness:
  "catalog (example_env True ''abc123'' []) = []
   \<and> localFiles (example_env True ''abc123'' []) (localFilePath (self example_state))
       = Some (example_local True)
   \<and> scanCatalog (example_env True ''abc123'' []) (self example_state) = Inr ''0''
   \<and> saveImpl (example_env True ''abc123'' []) example_state =
     (Inr (),
      \<lparr>self = example_file,
       events =
         [SessionUpload ''/tmp/scan.dcm'' example_query,
          SessionHttpGet ''/data/resources/7'',
          SessionHttpSync,
          QWarning ''Could not validate file upload!'']\<rparr>)"
proof -
  let ?env = "example_env True ''abc123'' ([] :: (string \<rightharpoonup> string) list)"
  have h1: "catalog ?env = []" by simp
  have h2: "localFiles ?env (localFilePath (self example_state)) = Some (example_local True)"
    by simp
  show ?thesis
    using h1 h2 saveImpl_empty_catalog [OF h1 h2]
    by (simp add: example_uploadQuery)
qed

section \<open>A checksum that reads \<open>"0"\<close>\<close>

text \<open>
  C9: when the last catalog record that holds the name of the resource carries the value
  \<open>"0"\<close>, that value is taken for the sentinel: \<open>saveImpl\<close> skips the comparison,
  returns normally with the warning and records no deletion, whatever the digest of the
  local file is.
\<close>

theorem saveImpl_zero_checksum_collides:
  assumes "localFiles env (localFilePath (self s)) = Some lf"
    and "i < length (catalog env)"
    and "(catalog env ! i) (name (self s)) = Some v"
    and "\<forall>j. i < j \<and> j < length (catalog env) \<longrightarrow> (catalog env ! j) (name (self s)) = None"
    and "toString env v = ''0''"
  shows "saveImpl env s =
     (Inr (),
      s\<lparr>events := events s @
          [SessionUpload (localFilePath (self s)) (uploadQuery (self s)),
           SessionHttpGet (parentResourceUri (self s)),
           SessionHttpSync,
           QWarning ''Could not validate file upload!'']\<rparr>)"
proof -
  have "scanCatalog env (self s) = Inr (toString env v)"
    using assms(2,3,4) by (rule scanCatalog_last_match)
  with assms(5) have sc: "scanCatalog env (self s) = Inr ''0''" by simp
  from saveImpl_uploaded [OF assms(1) sc] show ?thesis
    by simp
qed

theorem saveImpl_zero_checksum_collides_witness:
  "localFiles (example_env True ''def456'' [[''scan.dcm'' \<mapsto> ''abc123''], [''scan.dcm'' \<mapsto> ''0'']])
       (localFilePath (self example_state)) = Some (example_local True)
   \<and> (1::nat) < length (catalog (example_env True ''def456''
         [[''scan.dcm'' \<mapsto> ''abc123''], [''scan.dcm'' \<mapsto> ''0'']]))
   \<and> (catalog (example_env True ''def456''
         [[''scan.dcm'' \<mapsto> ''abc123''], [''scan.dcm'' \<mapsto> ''0'']]) ! 1)
        (name (self example_state)) = Some ''0''
   \<and> openable (example_local True)
   \<and> md5Hex (example_env True ''def456'' [[''scan.dcm'' \<mapsto> ''abc123''], [''scan.dcm'' \<mapsto> ''0'']])
        (bytes (example_local True)) \<notin> {''abc123'', ''0''}
   \<and> saveImpl (example_env True ''def456'' [[''scan.dcm'' \<mapsto> ''abc123''], [''scan.dcm'' \<mapsto> ''0'']])
        example_state =
     (Inr (),
      \<lparr>self = example_file,
       events =
         [SessionUpload ''/tmp/scan.dcm'' example_query,
          SessionHttpGet ''/data/resources/7'',
          SessionHttpSync,
          QWarning ''Could not validate file upload!'']\<rparr>)"
proof -
  let ?env = "example_env True ''def456'' [[''scan.dcm'' \<mapsto> ''abc123''], [''scan.dcm'' \<mapsto> ''0'']]"
  have h1: "localFiles ?env (localFilePath (self example_state)) = Some (example_local True)"
    by simp
  have h2: "(1::nat) < length (catalog ?env)" by simp
  have h3: "(catalog ?env ! 1) (name (self example_state)) = Some ''0''"
    by (simp add: getters)
  have h4: "\<forall>j. 1 < j \<and> j < length (catalog ?env)
              \<longrightarrow> (catalog ?env ! j) (name (self example_state)) = None"
    by simp
  have h5: "toString ?env ''0'' = ''0''" by simp
  have extra: "openable (example_local True)
      \<and> md5Hex ?env (bytes (example_local True)) \<notin> {''abc123'', ''0''}"
    by simp
  show ?thesis
    using h1 h2 h3 extra saveImpl_zero_checksum_collides [OF h1 h2 h3 h4 h5]
    by (simp add: example_uploadQuery)
qed

section \<open>The resource is only read\<close>

text \<open>
  C10: whatever the outcome of \<open>saveImpl\<close> (normal return, missing local file,
  checksum mismatch, verification skipped), the resource is left as it was found: its
  property store, hence name, format, content, tags and every other metadata entry, and
  its local file path.
\<close>

theorem saveImpl_preserves_resource:
  "self (snd (saveImpl env s)) = self s
   \<and> properties (self (snd (saveImpl env s))) = properties (self s)
   \<and> localFilePath (self (snd (saveImpl env s))) = localFilePath (self s)"
proof -
  have "self (snd (saveImpl env s)) = self s"
  proof (cases "localFiles env (localFilePath (self s))")
    case None
    then show ?thesis by (simp add: saveImpl_def)
  next
    case (Some lf)
    obtain c where "scanCatalog env (self s) = Inr c"
      using scanCatalog_returns by blast
    from saveImpl_uploaded [OF Some this] show ?thesis
      by (simp add: Let_def)
  qed
  then show ?thesis by simp
qed

end
